theory Spec2Isabelle
  imports Main
begin

section \<open>The error record and its wrappers\<close>

text \<open>
  The C++ source is one file, \<^verbatim>\<open>result.cpp\<close>. Its \<^verbatim>\<open>int\<close> values are modelled as
  HOL integers: the only place where the range of \<^verbatim>\<open>int\<close> matters is \<^verbatim>\<open>ParseInt\<close>,
  which tests it explicitly. Private members \<^verbatim>\<open>code_\<close>, \<^verbatim>\<open>error_\<close>, ... are written
  \<open>code_m\<close>, \<open>error_m\<close>, ... (a name cannot end in an underscore here).

  What a member function call can do besides returning is a value of \<open>fault\<close>:
  \<^item> \<open>Terminated\<close>: an exception leaves the function and nothing in the file catches
    it, so the program ends in \<^verbatim>\<open>std::terminate\<close> (only \<^verbatim>\<open>std::map::at\<close> throws);
  \<^item> \<open>Undefined\<close>: the source dereferences an empty \<^verbatim>\<open>shared_ptr\<close> or reads the
    union member \<^verbatim>\<open>value_\<close> that was never constructed; the source has no test
    there, and C++ leaves the behaviour undefined.
\<close>

datatype fault = Terminated | Undefined

definition panics :: "fault + 'a \<Rightarrow> bool" where
  "panics x = (case x of Inl Terminated \<Rightarrow> True | _ \<Rightarrow> False)"

text \<open>\<^verbatim>\<open>class ErrorImpl\<close>: the four private members set by the constructor.\<close>

record ErrorImpl =
  code_m :: int
  file_m :: string
  line_m :: int
  function_m :: string

text \<open>\<^verbatim>\<open>virtual const ErrorImpl* Cause() const { return nullptr; }\<close>; no class overrides it.\<close>

definition Cause :: "ErrorImpl \<Rightarrow> ErrorImpl option" where
  "Cause r = None"

text \<open>
  \<^verbatim>\<open>class BaseError\<close> holds \<^verbatim>\<open>std::shared_ptr<ErrorImpl> error_\<close>; \<open>None\<close> is the empty
  pointer. The record is never written after its construction, so a shared record is
  modelled by its value. The type parameter is the static type of the derived class
  (\<^verbatim>\<open>TypedError<ErrorCode>\<close> or \<^verbatim>\<open>GenericError\<close>), which adds no data member.
\<close>

datatype 'd BaseError = BaseError (error_m: "ErrorImpl option")

text \<open>An \<^verbatim>\<open>enum class\<close> with underlying type \<^verbatim>\<open>int\<close>: \<^verbatim>\<open>static_cast<ErrorCode>(i)\<close> and \<^verbatim>\<open>(int)code\<close>.\<close>

datatype 'c enum_class = static_cast_enum (to_int: int)

datatype 'c typed = Typed_tag
datatype generic = Generic_tag

type_synonym 'c TypedError = "'c typed BaseError"
type_synonym GenericError = "generic BaseError"

text \<open>\<^verbatim>\<open>BaseError() {}\<close> and \<^verbatim>\<open>BaseError(int code, const char* file, int line, const char* function)\<close>.\<close>

definition BaseError_default :: "'d BaseError" where
  "BaseError_default = BaseError None"

definition BaseError_new :: "int \<Rightarrow> string \<Rightarrow> int \<Rightarrow> string \<Rightarrow> 'd BaseError" where
  "BaseError_new code file line function =
     BaseError (Some \<lparr>code_m = code, file_m = file, line_m = line, function_m = function\<rparr>)"

definition RawCode :: "'d BaseError \<Rightarrow> int" where
  "RawCode e = (case error_m e of None \<Rightarrow> 0 | Some r \<Rightarrow> code_m r)"

text \<open>\<^verbatim>\<open>explicit operator bool() const { return error_ && int(error_->Code()) != 0; }\<close>\<close>

definition operator_bool :: "'d BaseError \<Rightarrow> bool" where
  "operator_bool e = (case error_m e of None \<Rightarrow> False | Some r \<Rightarrow> code_m r \<noteq> 0)"

text \<open>\<^verbatim>\<open>bool operator!() const { return !static_cast<bool>(*this); }\<close>\<close>

definition operator_not :: "'d BaseError \<Rightarrow> bool" where
  "operator_not e = (\<not> operator_bool e)"

text \<open>\<^verbatim>\<open>std::string Message() const { /* TODO: uses ErrorCodeTraits */ return ""; }\<close>\<close>

definition Message :: "'d BaseError \<Rightarrow> string" where
  "Message e = ''''"

text \<open>\<^verbatim>\<open>File()\<close>, \<^verbatim>\<open>Line()\<close>, \<^verbatim>\<open>Function()\<close> are \<^verbatim>\<open>error_->File()\<close> and so on, with no test of \<^verbatim>\<open>error_\<close>.\<close>

definition File :: "'d BaseError \<Rightarrow> fault + string" where
  "File e = (case error_m e of None \<Rightarrow> Inl Undefined | Some r \<Rightarrow> Inr (file_m r))"

definition Line :: "'d BaseError \<Rightarrow> fault + int" where
  "Line e = (case error_m e of None \<Rightarrow> Inl Undefined | Some r \<Rightarrow> Inr (line_m r))"

definition Function :: "'d BaseError \<Rightarrow> fault + string" where
  "Function e = (case error_m e of None \<Rightarrow> Inl Undefined | Some r \<Rightarrow> Inr (function_m r))"

text \<open>
  \<^verbatim>\<open>TypedError()\<close>, and \<^verbatim>\<open>TypedError(ErrorCode code, file, line, function)\<close>, whose last three
  arguments default to the place of the call.
\<close>

definition TypedError_default :: "'c TypedError" where
  "TypedError_default = BaseError_default"

definition TypedError :: "'c enum_class \<Rightarrow> string \<Rightarrow> int \<Rightarrow> string \<Rightarrow> 'c TypedError" where
  "TypedError code file line function = BaseError_new (to_int code) file line function"

text \<open>\<^verbatim>\<open>ErrorCode Code() const { return static_cast<ErrorCode>(RawCode()); }\<close>\<close>

definition TypedError_Code :: "'c TypedError \<Rightarrow> 'c enum_class" where
  "TypedError_Code e = static_cast_enum (RawCode e)"

text \<open>
  \<^verbatim>\<open>GenericError()\<close>, \<^verbatim>\<open>GenericError(int code, file, line, function)\<close> and the converting
  constructor \<^verbatim>\<open>template <typename ErrorType> GenericError(ErrorType error) : BaseError(error)\<close>,
  which copies the base of its argument, that is the pointer to the record.
\<close>

definition GenericError_default :: GenericError where
  "GenericError_default = BaseError_default"

definition GenericError :: "int \<Rightarrow> string \<Rightarrow> int \<Rightarrow> string \<Rightarrow> GenericError" where
  "GenericError code file line function = BaseError_new code file line function"

definition GenericError_from :: "'d BaseError \<Rightarrow> GenericError" where
  "GenericError_from error = BaseError (error_m error)"

text \<open>\<^verbatim>\<open>int Code() const { return RawCode(); }\<close>\<close>

definition GenericError_Code :: "GenericError \<Rightarrow> int" where
  "GenericError_Code e = RawCode e"

section \<open>Result\<close>

text \<open>
  \<^verbatim>\<open>template <typename T, typename ErrorType = GenericError> class Result\<close> has the members
  \<^verbatim>\<open>union { T value_; }\<close> and \<^verbatim>\<open>ErrorType error_\<close>. The union member is storage that a
  constructor may leave unconstructed: \<open>value_m = None\<close>. The member \<^verbatim>\<open>error_\<close> of
  \<^verbatim>\<open>Result\<close> is written \<open>error_R\<close>.
\<close>

record ('a, 'd) Result =
  value_m :: "'a option"
  error_R :: "'d BaseError"

text \<open>\<^verbatim>\<open>Result(T value) : value_(std::move(value)) {}\<close>: \<^verbatim>\<open>error_\<close> is default-constructed.\<close>

definition Result_value :: "'a \<Rightarrow> ('a, 'd) Result" where
  "Result_value v = \<lparr>value_m = Some v, error_R = BaseError_default\<rparr>"

text \<open>\<^verbatim>\<open>Result(ErrorType error) : error_(std::move(error)) {}\<close>: \<^verbatim>\<open>value_\<close> is not constructed.\<close>

definition Result_error :: "'d BaseError \<Rightarrow> ('a, 'd) Result" where
  "Result_error e = \<lparr>value_m = None, error_R = e\<rparr>"

text \<open>
  \<^verbatim>\<open>template <typename ErrorType2> Result(ErrorType2 error, ...) : error_(error) {}\<close>: the
  member \<^verbatim>\<open>error_\<close> of type \<^verbatim>\<open>GenericError\<close> is built from an error of another type by
  the converting constructor of \<^verbatim>\<open>GenericError\<close>.
\<close>

definition Result_error2 :: "'e BaseError \<Rightarrow> ('a, generic) Result" where
  "Result_error2 e = \<lparr>value_m = None, error_R = GenericError_from e\<rparr>"

text \<open>\<^verbatim>\<open>bool OK() const { return !error_; }\<close>\<close>

definition OK :: "('a, 'd) Result \<Rightarrow> bool" where
  "OK r = operator_not (error_R r)"

text \<open>\<^verbatim>\<open>const ErrorType& Error() const { return error_; }\<close>\<close>

definition Error :: "('a, 'd) Result \<Rightarrow> 'd BaseError" where
  "Error r = error_R r"

text \<open>\<^verbatim>\<open>T& Value() { return value_; }\<close>: no test of \<^verbatim>\<open>OK()\<close>.\<close>

definition Value :: "('a, 'd) Result \<Rightarrow> fault + 'a" where
  "Value r = (case value_m r of None \<Rightarrow> Inl Undefined | Some v \<Rightarrow> Inr v)"

text \<open>\<^verbatim>\<open>T ValueOr(T default_value) const { if (OK()) return Value(); return default_value; }\<close>\<close>

definition ValueOr :: "('a, 'd) Result \<Rightarrow> 'a \<Rightarrow> fault + 'a" where
  "ValueOr r default_value = (if OK r then Value r else Inr default_value)"

text \<open>
  The copy constructor copies \<^verbatim>\<open>error_\<close> and, when \<^verbatim>\<open>!error_\<close>, constructs \<^verbatim>\<open>value_\<close> from
  \<^verbatim>\<open>src.value_\<close>.
\<close>

definition Result_copy :: "('a, 'd) Result \<Rightarrow> fault + ('a, 'd) Result" where
  "Result_copy src =
     (if operator_not (error_R src)
      then (case value_m src of
              None \<Rightarrow> Inl Undefined
            | Some v \<Rightarrow> Inr \<lparr>value_m = Some v, error_R = error_R src\<rparr>)
      else Inr \<lparr>value_m = None, error_R = error_R src\<rparr>)"

text \<open>
  The states of a \<^verbatim>\<open>Result\<close> in which the value is constructed exactly when \<^verbatim>\<open>OK()\<close>
  holds: what \<^verbatim>\<open>Result(T)\<close> builds, and what \<^verbatim>\<open>Result(ErrorType)\<close> builds from an error
  that converts to \<^verbatim>\<open>true\<close>.
\<close>

definition value_iff_OK :: "('a, 'd) Result \<Rightarrow> bool" where
  "value_iff_OK r = (OK r = (value_m r \<noteq> None))"

subsection \<open>The specialisation for void\<close>

text \<open>
  \<^verbatim>\<open>template <typename ErrorType> class Result<void, ErrorType>\<close> has the one member
  \<^verbatim>\<open>ErrorType error_\<close>, written \<open>error_V\<close>.
\<close>

record 'd Result_void =
  error_V :: "'d BaseError"

definition Result_void_default :: "'d Result_void" where
  "Result_void_default = \<lparr>error_V = BaseError_default\<rparr>"

definition Result_void_error :: "'d BaseError \<Rightarrow> 'd Result_void" where
  "Result_void_error e = \<lparr>error_V = e\<rparr>"

definition Result_void_error2 :: "'e BaseError \<Rightarrow> generic Result_void" where
  "Result_void_error2 e = \<lparr>error_V = GenericError_from e\<rparr>"

text \<open>
  \<^verbatim>\<open>void IgnoreError() const {}\<close>: the call returns nothing; the object it was called on is
  returned beside it, as it is after the call.
\<close>

definition IgnoreError :: "'d Result_void \<Rightarrow> unit \<times> 'd Result_void" where
  "IgnoreError r = ((), r)"

definition OK_void :: "'d Result_void \<Rightarrow> bool" where
  "OK_void r = operator_not (error_V r)"

text \<open>\<^verbatim>\<open>Result<void> OK() { return {}; }\<close> and \<^verbatim>\<open>Result<void> FlushAll() { return OK(); }\<close>\<close>

definition OK_helper :: "generic Result_void" where
  "OK_helper = Result_void_default"

definition FlushAll :: "generic Result_void" where
  "FlushAll = OK_helper"

subsection \<open>The public member functions of the two class templates\<close>

text \<open>
  The names that member access on an object of each class can find, in the order of their
  declarations (constructors and the destructor apart). A use of a member that a class
  does not declare does not compile.
\<close>

datatype member =
  M_operator_arrow | M_Value | M_ValueOr | M_OK | M_Error | M_IgnoreError


definition Result_void_members :: "member list" where
  "Result_void_members = [M_IgnoreError, M_OK]"

section \<open>The TRY macro\<close>

text \<open>
  \<^verbatim>\<open>#define TRY(stmt) ({ auto&& result = stmt;
                        if (!result.OK()) return result.Error();
                        std::move(result).Value(); })\<close>

  The operand \<open>stmt\<close> is a computation on the state of the program, so that the number of
  times it runs can be seen in the state. The statement expression ends in one of three
  ways: it yields a value to the expression around it, it makes the enclosing function
  return, or it faults. The \<^verbatim>\<open>return\<close> statement builds the return value of the enclosing
  function from \<^verbatim>\<open>result.Error()\<close> with a constructor of that function's return type,
  \<open>construct\<close>: \<open>Result_error\<close> when the error types are the same, \<open>Result_error2\<close> when
  the function returns a \<^verbatim>\<open>Result<_, GenericError>\<close>.
\<close>

datatype ('r, 'a) flow = Yields 'a | Returns 'r | Faults fault

definition TRY ::
  "('e BaseError \<Rightarrow> 'r) \<Rightarrow> ('s \<Rightarrow> (fault + ('a, 'e) Result) \<times> 's) \<Rightarrow> 's \<Rightarrow> ('r, 'a) flow \<times> 's"
where
  "TRY construct stmt s =
     (case stmt s of
        (Inl x, s') \<Rightarrow> (Faults x, s')
      | (Inr result, s') \<Rightarrow>
          (if \<not> OK result then (Returns (construct (Error result)), s')
           else (case Value result of
                   Inl x \<Rightarrow> (Faults x, s')
                 | Inr v \<Rightarrow> (Yields v, s'))))"



section \<open>The C library: errno and strtol\<close>

text \<open>
  The values of \<^verbatim>\<open><errno.h>\<close> and \<^verbatim>\<open><limits.h>\<close> on Linux with a 64-bit \<^verbatim>\<open>long\<close>. \<^verbatim>\<open>ENOENT\<close>
  is "No such file or directory", \<^verbatim>\<open>EEXIST\<close> is "File exists", \<^verbatim>\<open>EINVAL\<close> is "Invalid
  argument", \<^verbatim>\<open>ERANGE\<close> is "Numerical result out of range".
\<close>

definition ENOENT :: int where "ENOENT = 2"
definition EEXIST :: int where "EEXIST = 17"
definition EINVAL :: int where "EINVAL = 22"
definition ERANGE :: int where "ERANGE = 34"

definition INT_MAX :: int where "INT_MAX = 2147483647"
definition INT_MIN :: int where "INT_MIN = - 2147483648"
definition LONG_MAX :: int where "LONG_MAX = 9223372036854775807"
definition LONG_MIN :: int where "LONG_MIN = - 9223372036854775808"

text \<open>\<^verbatim>\<open>std::string::c_str()\<close> read as a C string: the characters before the first NUL.\<close>

definition c_str :: "string \<Rightarrow> string" where
  "c_str s = takeWhile (\<lambda>c. c \<noteq> CHR 0x00) s"

definition isspace :: "char \<Rightarrow> bool" where
  "isspace c = (c \<in> set [CHR '' '', CHR 0x09, CHR 0x0A, CHR 0x0B, CHR 0x0C, CHR 0x0D])"

definition digit_value :: "char \<Rightarrow> int option" where
  "digit_value c =
     (let n = (of_char c :: int) in
      if 48 \<le> n \<and> n \<le> 57 then Some (n - 48)
      else if 97 \<le> n \<and> n \<le> 122 then Some (n - 87)
      else if 65 \<le> n \<and> n \<le> 90 then Some (n - 55)
      else None)"

definition is_digit_of :: "int \<Rightarrow> char \<Rightarrow> bool" where
  "is_digit_of base c = (case digit_value c of None \<Rightarrow> False | Some d \<Rightarrow> d < base)"

fun strtol_digits :: "int \<Rightarrow> int \<Rightarrow> string \<Rightarrow> int \<times> string" where
  "strtol_digits base acc [] = (acc, [])"
| "strtol_digits base acc (c # cs) =
     (case digit_value c of
        None \<Rightarrow> (acc, c # cs)
      | Some d \<Rightarrow> if d < base then strtol_digits base (acc * base + d) cs else (acc, c # cs))"

text \<open>
  \<^verbatim>\<open>long strtol(const char* nptr, char** endptr, int base)\<close> for \<open>base\<close> 0 or 2 to 36, as
  ISO C defines it in the "C" locale: white space, an optional sign, for base 0 or 16 an
  optional \<^verbatim>\<open>0x\<close> (taken only before a hexadecimal digit), for base 0 a leading \<^verbatim>\<open>0\<close>
  meaning octal, then the longest run of digits of the base. The result is the value,
  the string that \<^verbatim>\<open>*endptr\<close> points to, and \<^verbatim>\<open>errno\<close>. With no digit, the value is 0,
  \<^verbatim>\<open>*endptr\<close> is \<open>nptr\<close> and \<^verbatim>\<open>errno\<close> is left as it was (as glibc does); a value out of the
  range of \<^verbatim>\<open>long\<close> gives the nearest bound and \<^verbatim>\<open>ERANGE\<close>.
\<close>

definition strtol :: "string \<Rightarrow> int \<Rightarrow> int \<Rightarrow> int \<times> string \<times> int" where
  "strtol nptr base errno =
     (let s1 = dropWhile isspace nptr;
          negative = (case s1 of [] \<Rightarrow> False | c # _ \<Rightarrow> c = CHR ''-'');
          s2 = (case s1 of [] \<Rightarrow> [] | c # cs \<Rightarrow> if c = CHR ''-'' \<or> c = CHR ''+'' then cs else s1);
          hex_prefix = (case s2 of
                          z # x # h # _ \<Rightarrow>
                            z = CHR ''0'' \<and> (x = CHR ''x'' \<or> x = CHR ''X'') \<and> is_digit_of 16 h
                        | _ \<Rightarrow> False);
          b = (if (base = 0 \<or> base = 16) \<and> hex_prefix then 16
               else if base = 0 then (case s2 of [] \<Rightarrow> 10 | c # _ \<Rightarrow> if c = CHR ''0'' then 8 else 10)
               else base);
          s3 = (if (base = 0 \<or> base = 16) \<and> hex_prefix then drop 2 s2 else s2)
      in if base \<noteq> 0 \<and> (base < 2 \<or> 36 < base) then (0, nptr, EINVAL)
         else (case s3 of
                 [] \<Rightarrow> (0, nptr, errno)
               | c # _ \<Rightarrow>
                   if \<not> is_digit_of b c then (0, nptr, errno)
                   else (let (acc, rest) = strtol_digits b 0 s3;
                             n = (if negative then - acc else acc)
                         in if LONG_MAX < n then (LONG_MAX, rest, ERANGE)
                            else if n < LONG_MIN then (LONG_MIN, rest, ERANGE)
                            else (n, rest, errno))))"

section \<open>The demonstration code\<close>

text \<open>
  \<^verbatim>\<open>enum class ErrnoType {}; using ErrnoError = TypedError<ErrnoType>;\<close> and
  \<^verbatim>\<open>enum class DnsErrorCode {}; using DnsError = TypedError<DnsErrorCode>;\<close>
\<close>

datatype ErrnoType_tag = ErrnoType_tag
datatype DnsErrorCode_tag = DnsErrorCode_tag

type_synonym ErrnoType = "ErrnoType_tag enum_class"
type_synonym ErrnoError = "ErrnoType_tag TypedError"
type_synonym DnsErrorCode = "DnsErrorCode_tag enum_class"
type_synonym DnsError = "DnsErrorCode_tag TypedError"

text \<open>What \<^verbatim>\<open>__builtin_FILE()\<close> gives in this translation unit.\<close>

definition source_file :: string where
  "source_file = ''result.cpp''"

text \<open>\<^verbatim>\<open>static const std::map<std::string, std::string> file_content\<close>\<close>

definition file_content :: "string \<rightharpoonup> string" where
  "file_content = map_of [(''number'', ''100''), (''bad'', ''bad''), (''empty'', [])]"

text \<open>
  \<^verbatim>\<open>class File\<close> (its constructor is written \<open>File_named\<close>, since \<open>File\<close> is the
  accessor of \<^verbatim>\<open>BaseError\<close>), with \<^verbatim>\<open>Read()\<close> returning \<^verbatim>\<open>file_content.at(name_)\<close>, which throws
  \<^verbatim>\<open>std::out_of_range\<close> for a name that is not a key.
\<close>

datatype File = File_named (name_m: string)

definition Read :: "File \<Rightarrow> fault + (string, ErrnoType_tag typed) Result" where
  "Read f = (case file_content (name_m f) of
               None \<Rightarrow> Inl Terminated
             | Some content \<Rightarrow> Inr (Result_value content))"

text \<open>
  \<^verbatim>\<open>Result<File, ErrnoError> OpenFile(const std::string& name)\<close>; the error is built on line
  266, in \<^verbatim>\<open>OpenFile\<close>.
\<close>

definition OpenFile :: "string \<Rightarrow> (File, ErrnoType_tag typed) Result" where
  "OpenFile name =
     (if file_content name \<noteq> None then Result_value (File_named name)
      else Result_error (TypedError (static_cast_enum EEXIST) source_file 266 ''OpenFile''))"

text \<open>
  \<^verbatim>\<open>Result<int, ErrnoError> ParseInt(const std::string& s)\<close> on the state \<^verbatim>\<open>errno\<close>. Its last
  statement, \<^verbatim>\<open>return ErrnoError(ErrnoType(errno))\<close>, is on line 282.
\<close>

definition ParseInt_error :: "int \<Rightarrow> (int, ErrnoType_tag typed) Result \<times> int" where
  "ParseInt_error errno =
     (Result_error (TypedError (static_cast_enum errno) source_file 282 ''ParseInt''), errno)"

definition ParseInt :: "string \<Rightarrow> int \<Rightarrow> (int, ErrnoType_tag typed) Result \<times> int" where
  "ParseInt s errno =
     (let errno1 = 0;
          (n, endptr, errno2) = strtol (c_str s) 0 errno1
      in if errno2 = 0
         then (if endptr \<noteq> [] then ParseInt_error EINVAL
               else if INT_MAX < n \<or> n < INT_MIN then ParseInt_error ERANGE
               else (Result_value n, errno2))
         else ParseInt_error errno2)"

text \<open>\<^verbatim>\<open>Result<int> GetIntFromFile(const std::string& filename)\<close>\<close>

definition GetIntFromFile :: "string \<Rightarrow> int \<Rightarrow> (fault + (int, generic) Result) \<times> int" where
  "GetIntFromFile filename errno =
     (case TRY Result_error2 (\<lambda>e. (Inr (OpenFile filename), e)) errno of
        (Returns r, errno1) \<Rightarrow> (Inr r, errno1)
      | (Faults x, errno1) \<Rightarrow> (Inl x, errno1)
      | (Yields f, errno1) \<Rightarrow>
     (case TRY Result_error2 (\<lambda>e. (Read f, e)) errno1 of
        (Returns r, errno2) \<Rightarrow> (Inr r, errno2)
      | (Faults x, errno2) \<Rightarrow> (Inl x, errno2)
      | (Yields s, errno2) \<Rightarrow>
     (case TRY Result_error2 (\<lambda>e. (case ParseInt s e of (r, e') \<Rightarrow> (Inr r, e'))) errno2 of
        (Returns r, errno3) \<Rightarrow> (Inr r, errno3)
      | (Faults x, errno3) \<Rightarrow> (Inl x, errno3)
      | (Yields n, errno3) \<Rightarrow> (Inr (Result_value n), errno3))))"

text \<open>\<^verbatim>\<open>int ParseInt(const std::string& str, int default_value)\<close>\<close>

definition ParseInt_default :: "string \<Rightarrow> int \<Rightarrow> int \<Rightarrow> (fault + int) \<times> int" where
  "ParseInt_default str default_value errno =
     (case ParseInt str errno of (r, errno') \<Rightarrow> (ValueOr r default_value, errno'))"

section \<open>Unfolding the model\<close>

lemmas wrapper_defs =
  operator_bool_def operator_not_def RawCode_def File_def Line_def Function_def
  BaseError_default_def BaseError_new_def TypedError_default_def TypedError_def
  TypedError_Code_def GenericError_default_def GenericError_def GenericError_from_def
  GenericError_Code_def

lemmas Result_defs =
  Result_value_def Result_error_def Result_error2_def OK_def Error_def Value_def ValueOr_def

lemmas libc_defs =
  strtol_def c_str_def isspace_def is_digit_of_def digit_value_def
  ENOENT_def EEXIST_def EINVAL_def ERANGE_def INT_MAX_def INT_MIN_def LONG_MAX_def LONG_MIN_def

lemmas demo_defs =
  GetIntFromFile_def TRY_def OpenFile_def Read_def file_content_def ParseInt_def
  ParseInt_error_def source_file_def

section \<open>The results of the demonstration functions are well formed\<close>

lemma Result_value_value_iff_OK: "value_iff_OK (Result_value v)"
  by (simp add: value_iff_OK_def Result_defs wrapper_defs)

lemma Result_error_value_iff_OK:
  "operator_bool e \<Longrightarrow> value_iff_OK (Result_error e)"
  by (simp add: value_iff_OK_def Result_defs wrapper_defs)

lemma TypedError_truthy: "operator_bool (TypedError code file line function) = (to_int code \<noteq> 0)"
  by (simp add: wrapper_defs)

lemma OpenFile_value_iff_OK: "value_iff_OK (OpenFile name)"
  by (simp add: OpenFile_def Result_value_value_iff_OK Result_error_value_iff_OK
      TypedError_truthy EEXIST_def)

lemma ParseInt_error_value_iff_OK: "errno \<noteq> 0 \<Longrightarrow> value_iff_OK (fst (ParseInt_error errno))"
  by (simp add: ParseInt_error_def Result_error_value_iff_OK TypedError_truthy)

lemma ParseInt_value_iff_OK: "value_iff_OK (fst (ParseInt s errno))"
  by (simp add: ParseInt_def Let_def Result_value_value_iff_OK ParseInt_error_value_iff_OK
      EINVAL_def ERANGE_def split: prod.split)

lemma ParseInt_default_returns: "\<exists>x. fst (ParseInt_default str default_value errno) = Inr x"
proof -
  obtain r errno' where r: "ParseInt str errno = (r, errno')"
    by (cases "ParseInt str errno")
  with ParseInt_value_iff_OK [of str errno] have wf: "value_iff_OK r"
    by simp
  show ?thesis
  proof (cases "OK r")
    case True
    with wf obtain v where "value_m r = Some v"
      by (auto simp add: value_iff_OK_def)
    with True r show ?thesis
      by (simp add: ParseInt_default_def ValueOr_def Value_def)
  next
    case False
    with r show ?thesis
      by (simp add: ParseInt_default_def ValueOr_def)
  qed
qed

section \<open>The claims\<close>

lemma panics_Inr: "\<not> panics (Inr x)"
  by (simp add: panics_def)

lemma panics_Undefined: "\<not> panics (Inl Undefined)"
  by (simp add: panics_def)

subsection \<open>C1: the TRY macro\<close>




subsection \<open>C2: a Result built from an error gives the error back\<close>

text \<open>
  C2: for every error \<open>e\<close> that converts to \<^verbatim>\<open>true\<close>, \<^verbatim>\<open>Result(e).OK()\<close> is false and
  \<^verbatim>\<open>Result(e).Error()\<close> has the code, the file, line and function, and the cause of \<open>e\<close>:
  it is \<open>e\<close>. The same holds of the error record when the \<^verbatim>\<open>Result\<close> is one with a
  \<^verbatim>\<open>GenericError\<close>, built from \<open>e\<close> by the converting constructor.
\<close>

theorem Result_error_round_trip:
  fixes e :: "'d BaseError"
  shows
  "operator_bool e \<Longrightarrow>
     \<not> OK (Result_error e :: ('a, 'd) Result) \<and>
     Error (Result_error e) = e \<and>
     RawCode (Error (Result_error e)) = RawCode e \<and>
     File (Error (Result_error e)) = File e \<and>
     Line (Error (Result_error e)) = Line e \<and>
     Function (Error (Result_error e)) = Function e \<and>
     map_option Cause (error_m (Error (Result_error e))) = map_option Cause (error_m e) \<and>
     \<not> OK (Result_error2 e :: ('a, generic) Result) \<and>
     error_m (Error (Result_error2 e)) = error_m e \<and>
     GenericError_Code (Error (Result_error2 e)) = RawCode e \<and>
     File (Error (Result_error2 e)) = File e \<and>
     Line (Error (Result_error2 e)) = Line e \<and>
     Function (Error (Result_error2 e)) = Function e"
  by (simp add: Result_defs wrapper_defs)

theorem Result_error_round_trip_witness:
  "operator_bool (TypedError (static_cast_enum 22) ''result.cpp'' 282 ''ParseInt'' :: ErrnoError) \<and>
   \<not> OK (Result_error (TypedError (static_cast_enum 22) ''result.cpp'' 282 ''ParseInt'')
           :: (int, ErrnoType_tag typed) Result) \<and>
   Line (Error (Result_error (TypedError (static_cast_enum 22) ''result.cpp'' 282 ''ParseInt'')
           :: (int, ErrnoType_tag typed) Result)) = Inr 282 \<and>
   GenericError_Code (Error (Result_error2
       (TypedError (static_cast_enum 22) ''result.cpp'' 282 ''ParseInt'' :: ErrnoError)
           :: (int, generic) Result)) = 22"
proof -
  let ?e = "TypedError (static_cast_enum 22) ''result.cpp'' 282 ''ParseInt'' :: ErrnoError"
  have truthy: "operator_bool ?e"
    by (simp add: wrapper_defs)
  have vals: "Line ?e = Inr 282" "RawCode ?e = 22"
    by (simp_all add: wrapper_defs)
  from Result_error_round_trip [OF truthy, where ?'a = int]
  have "\<not> OK (Result_error ?e :: (int, ErrnoType_tag typed) Result)"
    and "Line (Error (Result_error ?e :: (int, ErrnoType_tag typed) Result)) = Line ?e"
    and "GenericError_Code (Error (Result_error2 ?e :: (int, generic) Result)) = RawCode ?e"
    by blast+
  with truthy vals show ?thesis
    by simp
qed

subsection \<open>C3: conversion of an error to bool\<close>

text \<open>
  C3: for every error wrapper \<open>e\<close> (a \<^verbatim>\<open>TypedError<Code>\<close> or a \<^verbatim>\<open>GenericError\<close>): when \<open>e\<close>
  converts to \<^verbatim>\<open>true\<close>, \<^verbatim>\<open>bool(e)\<close> is true and \<^verbatim>\<open>!e\<close> is false; when \<open>e\<close> is empty or
  default-constructed, \<^verbatim>\<open>bool(e)\<close> is false and \<^verbatim>\<open>!e\<close> is true; and \<^verbatim>\<open>bool(e)\<close> is true
  exactly when the wrapped record exists and its code is not zero.
\<close>

theorem error_truthiness:
  fixes e :: "'d BaseError"
  shows
  "(operator_bool e \<longrightarrow> operator_bool e = True \<and> operator_not e = False) \<and>
   (error_m e = None \<longrightarrow> operator_bool e = False \<and> operator_not e = True) \<and>
   operator_bool (TypedError_default :: 'c TypedError) = False \<and>
   operator_not (TypedError_default :: 'c TypedError) = True \<and>
   operator_bool GenericError_default = False \<and>
   operator_not GenericError_default = True \<and>
   operator_bool e = (\<exists>r. error_m e = Some r \<and> code_m r \<noteq> 0) \<and>
   operator_not e = (\<not> operator_bool e)"
  by (cases "error_m e") (simp_all add: wrapper_defs)

theorem error_truthiness_witness:
  "operator_bool (GenericError 17 ''result.cpp'' 266 ''OpenFile'') \<and>
   \<not> operator_not (GenericError 17 ''result.cpp'' 266 ''OpenFile'') \<and>
   error_m (BaseError None :: GenericError) = None \<and>
   \<not> operator_bool (BaseError None :: GenericError) \<and>
   operator_not (BaseError None :: GenericError) \<and>
   \<not> operator_bool (GenericError 0 ''result.cpp'' 266 ''OpenFile'')"
proof -
  let ?e = "GenericError 17 ''result.cpp'' 266 ''OpenFile''"
  let ?z = "GenericError 0 ''result.cpp'' 266 ''OpenFile''"
  let ?n = "BaseError None :: GenericError"
  have record_e: "error_m ?e = Some \<lparr>code_m = 17, file_m = ''result.cpp'', line_m = 266,
      function_m = ''OpenFile''\<rparr>"
    and record_z: "error_m ?z = Some \<lparr>code_m = 0, file_m = ''result.cpp'', line_m = 266,
      function_m = ''OpenFile''\<rparr>"
    by (simp_all add: GenericError_def BaseError_new_def)
  from error_truthiness [of ?e]
  have iff_e: "operator_bool ?e = (\<exists>r. error_m ?e = Some r \<and> code_m r \<noteq> 0)"
    and not_e: "operator_bool ?e \<longrightarrow> operator_not ?e = False"
    by blast+
  from iff_e record_e have truthy: "operator_bool ?e"
    by simp
  with not_e have 1: "\<not> operator_not ?e"
    by simp
  from error_truthiness [of ?z]
  have "operator_bool ?z = (\<exists>r. error_m ?z = Some r \<and> code_m r \<noteq> 0)"
    by blast
  with record_z have 2: "\<not> operator_bool ?z"
    by simp
  from error_truthiness [of ?n]
  have "error_m ?n = None \<longrightarrow> operator_bool ?n = False \<and> operator_not ?n = True"
    by blast
  then have 3: "\<not> operator_bool ?n \<and> operator_not ?n"
    by simp
  from truthy 1 2 3 show ?thesis
    by simp
qed

subsection \<open>C4: the lookup-then-parse pipeline\<close>

text \<open>
  C4 says of \<^verbatim>\<open>GetIntFromFile\<close>: the key "number" has the content "100", which parses to
  100; the key "bad" is found and its content fails to parse, with the code of "invalid
  format"; the key "missing" fails at the lookup with a code that identifies "not found",
  and the parse step is not reached.

  What the code does, for every value of \<^verbatim>\<open>errno\<close> before the call: "number" gives the
  value 100; "bad" gives an error with the code \<^verbatim>\<open>EINVAL\<close>, built in \<^verbatim>\<open>ParseInt\<close> on line
  282; "missing" gives an error built in \<^verbatim>\<open>OpenFile\<close> on line 266 and leaves \<^verbatim>\<open>errno\<close> as
  it was (the first statement of \<^verbatim>\<open>ParseInt\<close> sets it to 0, so \<^verbatim>\<open>ParseInt\<close> did not
  run), but the code of that error is \<^verbatim>\<open>EEXIST\<close>, 17, "File exists", and not \<^verbatim>\<open>ENOENT\<close>,
  2, "No such file or directory".
\<close>

theorem GetIntFromFile_scenario:
  "Read (File_named ''number'') = Inr (Result_value ''100'') \<and>
   GetIntFromFile ''number'' errno = (Inr (Result_value 100), 0) \<and>
   OK (OpenFile ''bad'') \<and>
   GetIntFromFile ''bad'' errno =
     (Inr (Result_error2
        (TypedError (static_cast_enum EINVAL) source_file 282 ''ParseInt'' :: ErrnoError)),
      EINVAL) \<and>
   \<not> OK (OpenFile ''missing'') \<and>
   GetIntFromFile ''missing'' errno =
     (Inr (Result_error2
        (TypedError (static_cast_enum EEXIST) source_file 266 ''OpenFile'' :: ErrnoError)),
      errno) \<and>
   GenericError_Code (Error (Result_error2
        (TypedError (static_cast_enum EEXIST) source_file 266 ''OpenFile'' :: ErrnoError)
          :: (int, generic) Result)) = 17 \<and>
   EEXIST \<noteq> ENOENT"
  by (simp add: demo_defs libc_defs Result_defs wrapper_defs)

subsection \<open>C5: erasing the type of an error\<close>

text \<open>
  C5: for every \<^verbatim>\<open>TypedError<C>\<close> value \<open>e\<close>, \<^verbatim>\<open>GenericError(e).Code() == (int)e.Code()\<close>,
  and \<^verbatim>\<open>GenericError(e)\<close> has the record of \<open>e\<close>: the same file, line and function, the
  same cause, and the same conversion to bool.
\<close>

theorem erasure_keeps_data:
  fixes e :: "'c TypedError"
  shows
  "GenericError_Code (GenericError_from e) = to_int (TypedError_Code e) \<and>
   error_m (GenericError_from e) = error_m e \<and>
   File (GenericError_from e) = File e \<and>
   Line (GenericError_from e) = Line e \<and>
   Function (GenericError_from e) = Function e \<and>
   map_option Cause (error_m (GenericError_from e)) = map_option Cause (error_m e) \<and>
   operator_bool (GenericError_from e) = operator_bool e"
  by (simp add: wrapper_defs)

subsection \<open>C6: ValueOr\<close>

text \<open>
  C6, as the spec has it: for every \<^verbatim>\<open>Result<T, E>\<close> \<open>r\<close> and every default \<open>d\<close>,
  \<^verbatim>\<open>r.ValueOr(d)\<close> returns the held value when \<^verbatim>\<open>r.OK()\<close> is true and \<open>d\<close> otherwise, and
  never panics, whatever the state. It fails on the \<^verbatim>\<open>Result\<close> built from an error that
  converts to \<^verbatim>\<open>false\<close>: that one is OK and holds no value, and \<^verbatim>\<open>ValueOr\<close> returns neither a
  held value nor \<open>d\<close>, it reads the value that was never constructed
  (\<open>ValueOr_counterexample\<close>).

  C6 as amended: for every \<open>r\<close> and \<open>d\<close>, \<^verbatim>\<open>r.ValueOr(d)\<close> returns \<open>d\<close> when \<^verbatim>\<open>r.OK()\<close> is
  false; and for every \<open>r\<close> whose value is constructed exactly when \<^verbatim>\<open>r.OK()\<close> is true (what
  \<^verbatim>\<open>Result(T)\<close> builds, and what \<^verbatim>\<open>Result(E)\<close> builds from an error that converts to
  \<^verbatim>\<open>true\<close>), it returns the held value when \<^verbatim>\<open>r.OK()\<close> is true, and in both cases it
  returns a value and does not panic. On the \<^verbatim>\<open>Result\<close> built from an error that converts
  to \<^verbatim>\<open>false\<close> the behaviour is undefined.
\<close>

theorem ValueOr_held_or_default:
  fixes r :: "('a, 'd) Result" and e :: "'d BaseError"
  shows
  "(\<not> OK r \<longrightarrow> ValueOr r d = Inr d) \<and>
   (OK r \<longrightarrow> value_m r = Some v \<longrightarrow> ValueOr r d = Inr v) \<and>
   (value_iff_OK r \<longrightarrow> OK r \<longrightarrow> (\<exists>x. value_m r = Some x \<and> ValueOr r d = Inr x)) \<and>
   (value_iff_OK r \<longrightarrow> (\<exists>x. ValueOr r d = Inr x) \<and> \<not> panics (ValueOr r d)) \<and>
   value_iff_OK (Result_value v :: ('a, 'd) Result) \<and>
   ValueOr (Result_value v :: ('a, 'd) Result) d = Inr v \<and>
   (operator_bool e \<longrightarrow>
      value_iff_OK (Result_error e :: ('a, 'd) Result) \<and>
      ValueOr (Result_error e :: ('a, 'd) Result) d = Inr d) \<and>
   (\<not> operator_bool e \<longrightarrow>
      \<not> value_iff_OK (Result_error e :: ('a, 'd) Result) \<and>
      ValueOr (Result_error e :: ('a, 'd) Result) d = Inl Undefined)"
  by (cases "value_m r") (auto simp add: Result_defs wrapper_defs value_iff_OK_def panics_def)

theorem ValueOr_held_or_default_witness:
  "ValueOr (Result_value 100 :: (int, generic) Result) (- 1) = Inr 100 \<and>
   ValueOr (Result_error (GenericError 22 ''result.cpp'' 282 ''ParseInt'') :: (int, generic) Result)
     (- 1) = Inr (- 1)"
proof -
  let ?ok = "Result_value 100 :: (int, generic) Result"
  let ?e = "GenericError 22 ''result.cpp'' 282 ''ParseInt''"
  let ?bad = "Result_error ?e :: (int, generic) Result"
  have ok: "OK ?ok" "value_iff_OK ?ok" "value_m ?ok = Some 100"
    by (simp_all add: Result_defs wrapper_defs value_iff_OK_def)
  have truthy: "operator_bool ?e"
    by (simp add: wrapper_defs)
  then have bad: "\<not> OK ?bad"
    by (simp add: Result_defs wrapper_defs)
  from ValueOr_held_or_default [where r = ?ok and d = "- 1" and e = ?e]
  have "value_iff_OK ?ok \<longrightarrow> OK ?ok \<longrightarrow> (\<exists>x. value_m ?ok = Some x \<and> ValueOr ?ok (- 1) = Inr x)"
    by blast
  with ok have 1: "ValueOr ?ok (- 1) = Inr 100"
    by simp
  from ValueOr_held_or_default [where r = ?bad and d = "- 1" and e = ?e]
  have "\<not> OK ?bad \<longrightarrow> ValueOr ?bad (- 1) = Inr (- 1)"
    by blast
  with bad have 2: "ValueOr ?bad (- 1) = Inr (- 1)"
    by simp
  from 1 2 show ?thesis
    by simp
qed

theorem ValueOr_counterexample:
  "OK (Result_error TypedError_default :: (int, ErrnoType_tag typed) Result) \<and>
   value_m (Result_error TypedError_default :: (int, ErrnoType_tag typed) Result) = None \<and>
   ValueOr (Result_error TypedError_default :: (int, ErrnoType_tag typed) Result) (- 1) =
     Inl Undefined"
  by (simp add: Result_defs wrapper_defs)

subsection \<open>C7: Value() and the location of an error are read without a test\<close>

text \<open>
  C7, as the spec has it: \<^verbatim>\<open>Value()\<close> on a \<^verbatim>\<open>Result\<close> whose \<^verbatim>\<open>OK()\<close> is false, and reading the
  location of an empty error wrapper, must panic, abort or assert. The code has no
  assertion and no test there (\<open>Value_not_OK_counterexample\<close>).

  C7 as amended: \<^verbatim>\<open>Value()\<close> does not look at the error, so it is the same whatever the
  error is, and it never ends the program; on a \<^verbatim>\<open>Result\<close> built from an error it reads
  the value that was never constructed, which is undefined behaviour. \<^verbatim>\<open>File()\<close>,
  \<^verbatim>\<open>Line()\<close> and \<^verbatim>\<open>Function()\<close> never end the program either; on an empty wrapper they
  dereference the empty pointer, which is undefined behaviour.
\<close>

theorem Value_is_unchecked:
  fixes r :: "('a, 'd) Result" and e :: "'d BaseError"
  shows
  "Value (r\<lparr>error_R := e\<rparr>) = Value r \<and>
   \<not> panics (Value r) \<and>
   Value (Result_error e :: ('a, 'd) Result) = Inl Undefined \<and>
   \<not> panics (File e) \<and> \<not> panics (Line e) \<and> \<not> panics (Function e) \<and>
   (error_m e = None \<longrightarrow>
      File e = Inl Undefined \<and> Line e = Inl Undefined \<and> Function e = Inl Undefined)"
  by (cases "value_m r"; cases "error_m e")
     (simp_all add: Result_defs wrapper_defs panics_def)

theorem Value_is_unchecked_witness:
  "error_m (GenericError_default) = None \<and>
   File GenericError_default = Inl Undefined \<and>
   Line GenericError_default = Inl Undefined \<and>
   Function GenericError_default = Inl Undefined \<and>
   Value (Result_error GenericError_default :: (int, generic) Result) = Inl Undefined"
proof -
  have empty: "error_m GenericError_default = None"
    by (simp add: GenericError_default_def BaseError_default_def)
  from Value_is_unchecked
    [where r = "Result_value 0 :: (int, generic) Result" and e = GenericError_default]
  have "error_m GenericError_default = None \<longrightarrow>
      File GenericError_default = Inl Undefined \<and> Line GenericError_default = Inl Undefined \<and>
      Function GenericError_default = Inl Undefined"
    and "Value (Result_error GenericError_default :: (int, generic) Result) = Inl Undefined"
    by blast+
  with empty show ?thesis
    by simp
qed

theorem Value_not_OK_counterexample:
  "\<not> OK (Result_error (GenericError 22 ''result.cpp'' 282 ''ParseInt'') :: (int, generic) Result) \<and>
   \<not> panics (Value (Result_error (GenericError 22 ''result.cpp'' 282 ''ParseInt'')
              :: (int, generic) Result)) \<and>
   error_m GenericError_default = None \<and>
   \<not> panics (File GenericError_default) \<and>
   \<not> panics (Line GenericError_default) \<and>
   \<not> panics (Function GenericError_default)"
  by (simp add: Result_defs wrapper_defs panics_def)

subsection \<open>C8: the specialisation for void\<close>

text \<open>
  C8, as the spec has it: \<^verbatim>\<open>Result<void, E>\<close> drops \<^verbatim>\<open>Value()\<close> and \<^verbatim>\<open>ValueOr\<close> and exposes
  exactly \<^verbatim>\<open>OK()\<close>, \<^verbatim>\<open>Error()\<close> and an "ignore" operation, which is a no-op. The class
  declares no \<^verbatim>\<open>Error()\<close> (\<open>Result_void_members_counterexample\<close>).

  C8 as amended: \<^verbatim>\<open>Result<void, E>\<close> drops \<^verbatim>\<open>Value()\<close> and \<^verbatim>\<open>ValueOr\<close> and exposes exactly
  \<^verbatim>\<open>OK()\<close> and the "ignore" operation \<^verbatim>\<open>IgnoreError()\<close>; for every \<^verbatim>\<open>Result<void, E>\<close> value,
  \<^verbatim>\<open>IgnoreError()\<close> leaves the result as it was, \<^verbatim>\<open>OK()\<close> included, and what it returns is
  the same for every result, so it does not depend on \<^verbatim>\<open>OK()\<close>; so it is for
  \<^verbatim>\<open>FlushAll().IgnoreError()\<close>.
\<close>

theorem Result_void_interface:
  "set Result_void_members = {M_OK, M_IgnoreError} \<and>
   M_Value \<notin> set Result_void_members \<and>
   M_ValueOr \<notin> set Result_void_members \<and>
   M_operator_arrow \<notin> set Result_void_members \<and>
   M_OK \<in> set Result_void_members \<and>
   M_IgnoreError \<in> set Result_void_members \<and>
   snd (IgnoreError r) = r \<and>
   OK_void (snd (IgnoreError r)) = OK_void r \<and>
   fst (IgnoreError r) = fst (IgnoreError r') \<and>
   IgnoreError FlushAll = ((), FlushAll)"
  by (auto simp add: Result_void_members_def IgnoreError_def)

theorem Result_void_members_counterexample:
  "M_Error \<notin> set Result_void_members \<and>
   set Result_void_members \<noteq> {M_OK, M_Error, M_IgnoreError}"
  by (auto simp add: Result_void_members_def)

subsection \<open>C9: Message()\<close>

text \<open>
  C9 says that \<^verbatim>\<open>Message()\<close> resolves the code to a string through the registry of the
  error's domain, and falls back to the number of the code. The body of \<^verbatim>\<open>Message()\<close> is
  \<^verbatim>\<open>// TODO: uses ErrorCodeTraits\<close> and \<^verbatim>\<open>return "";\<close>: for every error the message is the
  empty string, and for the error with the code 22 it is not "22".
\<close>

theorem Message_is_empty:
  "Message e = [] \<and>
   operator_bool (TypedError (static_cast_enum 22) ''result.cpp'' 282 ''ParseInt'' :: ErrnoError) \<and>
   Message (TypedError (static_cast_enum 22) ''result.cpp'' 282 ''ParseInt'' :: ErrnoError) \<noteq> ''22''"
  by (simp add: Message_def wrapper_defs)

subsection \<open>C10: a Result built from an error that converts to false\<close>

text \<open>
  C10: a \<^verbatim>\<open>Result<T, E>\<close> built from an error \<open>e\<close> that converts to \<^verbatim>\<open>false\<close> (an empty one,
  or one whose code is 0) has \<^verbatim>\<open>OK() == true\<close> although no value was constructed,
  because \<^verbatim>\<open>OK()\<close> is \<^verbatim>\<open>!error_\<close> and does not depend on the value; \<^verbatim>\<open>Error()\<close> returns \<open>e\<close>.
\<close>

theorem Result_from_falsy_error:
  fixes e :: "'d BaseError" and r :: "('a, 'd) Result"
  shows
  "\<not> operator_bool e \<Longrightarrow>
     OK (Result_error e :: ('a, 'd) Result) \<and>
     value_m (Result_error e :: ('a, 'd) Result) = None \<and>
     Error (Result_error e :: ('a, 'd) Result) = e \<and>
     \<not> operator_bool (Error (Result_error e :: ('a, 'd) Result)) \<and>
     OK (r\<lparr>value_m := x\<rparr>) = OK r \<and>
     OK r = operator_not (error_R r)"
  by (simp add: Result_defs wrapper_defs)

theorem Result_from_falsy_error_witness:
  "\<not> operator_bool (TypedError_default :: ErrnoError) \<and>
   OK (Result_error TypedError_default :: (int, ErrnoType_tag typed) Result) \<and>
   value_m (Result_error TypedError_default :: (int, ErrnoType_tag typed) Result) = None \<and>
   \<not> operator_bool (TypedError (static_cast_enum 0) ''result.cpp'' 266 ''OpenFile'' :: ErrnoError) \<and>
   OK (Result_error (TypedError (static_cast_enum 0) ''result.cpp'' 266 ''OpenFile'')
         :: (int, ErrnoType_tag typed) Result)"
proof -
  let ?n = "TypedError_default :: ErrnoError"
  let ?z = "TypedError (static_cast_enum 0) ''result.cpp'' 266 ''OpenFile'' :: ErrnoError"
  have falsy: "\<not> operator_bool ?n" "\<not> operator_bool ?z"
    by (simp_all add: wrapper_defs)
  from Result_from_falsy_error [OF falsy(1), where ?'a = int]
  have 1: "OK (Result_error ?n :: (int, ErrnoType_tag typed) Result)"
    and 2: "value_m (Result_error ?n :: (int, ErrnoType_tag typed) Result) = None"
    by blast+
  from Result_from_falsy_error [OF falsy(2), where ?'a = int]
  have 3: "OK (Result_error ?z :: (int, ErrnoType_tag typed) Result)"
    by blast
  from falsy 1 2 3 show ?thesis
    by simp
qed

end
